theory Spec2Isabelle
  imports Complex_Main "HOL-Library.Multiset" "HOL-Library.Sublist"
begin

section \<open>Python and numpy primitives\<close>

text \<open>
  Floating-point numbers are modelled as reals, identifiers (user ids, recipe ids) and
  Python integers as \<open>int\<close>. An exception is a value \<open>Inl e\<close> of the result type.
\<close>

datatype error = KeyError | IndexError | ValueError | TypeError | ZeroDivisionError

text \<open>
  A Python \<open>dict\<close> is kept as an association list and read through \<open>map_of\<close>;
  \<open>d[k]\<close> raises KeyError on a missing key.
\<close>

definition dict_lookup :: "('k \<times> 'v) list \<Rightarrow> 'k \<Rightarrow> error + 'v" where
  "dict_lookup d k = (case map_of d k of None \<Rightarrow> Inl KeyError | Some v \<Rightarrow> Inr v)"

text \<open>
  Indexing a list or the first axis of an array with an integer: an index below zero
  counts from the end, and anything outside \<open>-len \<le> i < len\<close> raises IndexError.
\<close>

definition in_range :: "'a list \<Rightarrow> int \<Rightarrow> bool" where
  "in_range xs i \<longleftrightarrow> - int (length xs) \<le> i \<and> i < int (length xs)"

definition row_at :: "'a list \<Rightarrow> int \<Rightarrow> 'a" where
  "row_at xs i = (if 0 \<le> i then xs ! nat i else xs ! nat (int (length xs) + i))"

definition py_index :: "'a list \<Rightarrow> int \<Rightarrow> error + 'a" where
  "py_index xs i = (if in_range xs i then Inr (row_at xs i) else Inl IndexError)"

text \<open>
  \<open>np.dot\<close> of two vectors; vectors of different lengths raise ValueError.
  \<open>np.dot\<close> of a matrix and a vector takes the product of every row with the vector.
\<close>

definition np_dot :: "real list \<Rightarrow> real list \<Rightarrow> error + real" where
  "np_dot xs ys =
     (if length xs = length ys then Inr (sum_list (map2 (*) xs ys)) else Inl ValueError)"

fun collect :: "(error + 'a) list \<Rightarrow> error + 'a list" where
  "collect [] = Inr []"
| "collect (r # rs) =
     (case r of
        Inl e \<Rightarrow> Inl e
      | Inr x \<Rightarrow> (case collect rs of Inl e \<Rightarrow> Inl e | Inr xs \<Rightarrow> Inr (x # xs)))"

definition np_dot_mat :: "real list list \<Rightarrow> real list \<Rightarrow> error + real list" where
  "np_dot_mat M v = collect (map (\<lambda>row. np_dot row v) M)"

definition np_clip :: "real \<Rightarrow> real \<Rightarrow> real \<Rightarrow> real" where
  "np_clip x lo hi = min (max x lo) hi"

text \<open>
  \<open>xs.sort(key=lambda x: x[1], reverse=True)\<close> and
  \<open>sorted(..., key=lambda x: x[1], reverse=True)\<close>: descending in the second component;
  Python's sort is stable also with \<open>reverse=True\<close>, so elements with equal keys keep
  their order. The insertion sort \<open>sort_key\<close> is stable as well.
\<close>

definition sort_by_score_desc :: "('a \<times> real) list \<Rightarrow> ('a \<times> real) list" where
  "sort_by_score_desc xs = sort_key (\<lambda>x. - snd x) xs"

text \<open>The slice \<open>xs[:n]\<close>; a negative bound drops \<open>-n\<close> elements from the end.\<close>

definition py_take :: "int \<Rightarrow> 'a list \<Rightarrow> 'a list" where
  "py_take n xs = (if 0 \<le> n then take (nat n) xs else take (nat (int (length xs) + n)) xs)"

section \<open>CollaborativeFilteringModel\<close>

text \<open>
  The fields of a model after \<open>fit\<close> (or after \<open>load_model\<close> of a fitted model). The two
  factor arrays are lists of rows; the four id tables are dictionaries.
\<close>

record cf_model =
  n_factors :: nat
  user_factors :: "real list list"
  item_factors :: "real list list"
  user_idx_to_id :: "(int \<times> int) list"
  item_idx_to_id :: "(int \<times> int) list"
  user_id_to_idx :: "(int \<times> int) list"
  item_id_to_idx :: "(int \<times> int) list"
  global_mean :: real

text \<open>The body of the \<open>try\<close> block of \<open>predict\<close>, evaluated in the source's order.\<close>

definition predict_try :: "cf_model \<Rightarrow> int \<Rightarrow> int \<Rightarrow> error + real" where
  "predict_try m user_id item_id =
     (case dict_lookup (user_id_to_idx m) user_id of
        Inl e \<Rightarrow> Inl e
      | Inr user_idx \<Rightarrow>
     (case dict_lookup (item_id_to_idx m) item_id of
        Inl e \<Rightarrow> Inl e
      | Inr item_idx \<Rightarrow>
     (case py_index (user_factors m) user_idx of
        Inl e \<Rightarrow> Inl e
      | Inr user_vec \<Rightarrow>
     (case py_index (item_factors m) item_idx of
        Inl e \<Rightarrow> Inl e
      | Inr item_vec \<Rightarrow>
     (case np_dot user_vec item_vec of
        Inl e \<Rightarrow> Inl e
      | Inr d \<Rightarrow> Inr (np_clip (global_mean m + d) 1 5))))))"

text \<open>\<open>except (KeyError, IndexError): return self.global_mean\<close>; other errors escape.\<close>

definition predict :: "cf_model \<Rightarrow> int \<Rightarrow> int \<Rightarrow> error + real" where
  "predict m user_id item_id =
     (case predict_try m user_id item_id of
        Inl KeyError \<Rightarrow> Inr (global_mean m)
      | Inl IndexError \<Rightarrow> Inr (global_mean m)
      | Inl e \<Rightarrow> Inl e
      | Inr r \<Rightarrow> Inr r)"

text \<open>
  \<open>exclude_items and item_id in exclude_items\<close>: the argument is \<open>None\<close> or a set, and
  an empty set is falsy.
\<close>

definition excluded :: "int set option \<Rightarrow> int \<Rightarrow> bool" where
  "excluded exclude_items item_id =
     (case exclude_items of None \<Rightarrow> False | Some S \<Rightarrow> S \<noteq> {} \<and> item_id \<in> S)"

text \<open>
  The loop \<open>for idx, score in enumerate(predictions)\<close> of \<open>recommend_items\<close>;
  \<open>self.item_idx_to_id[idx]\<close> raises KeyError when the index is not a key.
\<close>

fun build_recommendations ::
  "(int \<times> int) list \<Rightarrow> int set option \<Rightarrow> nat \<Rightarrow> real list \<Rightarrow> error + (int \<times> real) list" where
  "build_recommendations tbl ex idx [] = Inr []"
| "build_recommendations tbl ex idx (score # rest) =
     (case dict_lookup tbl (int idx) of
        Inl e \<Rightarrow> Inl e
      | Inr item_id \<Rightarrow>
          (case build_recommendations tbl ex (Suc idx) rest of
             Inl e \<Rightarrow> Inl e
           | Inr recs \<Rightarrow> Inr (if excluded ex item_id then recs else (item_id, score) # recs)))"

text \<open>
  \<open>recommend_items\<close>: only the KeyError of the user lookup is caught (and gives the empty
  list); an IndexError of \<open>self.user_factors[user_idx]\<close>, a ValueError of \<open>np.dot\<close> and a
  KeyError inside the loop escape.
\<close>

definition recommend_items ::
  "cf_model \<Rightarrow> int \<Rightarrow> int \<Rightarrow> int set option \<Rightarrow> error + (int \<times> real) list" where
  "recommend_items m user_id n_recommendations exclude_items =
     (case dict_lookup (user_id_to_idx m) user_id of
        Inl e \<Rightarrow> Inr []
      | Inr user_idx \<Rightarrow>
     (case py_index (user_factors m) user_idx of
        Inl e \<Rightarrow> Inl e
      | Inr user_vector \<Rightarrow>
     (case np_dot_mat (item_factors m) user_vector of
        Inl e \<Rightarrow> Inl e
      | Inr dots \<Rightarrow>
     (case build_recommendations (item_idx_to_id m) exclude_items 0
             (map (\<lambda>d. global_mean m + d) dots) of
        Inl e \<Rightarrow> Inl e
      | Inr recommendations \<Rightarrow>
          Inr (py_take n_recommendations (sort_by_score_desc recommendations))))))"

text \<open>
  The same loop with the index kept beside every entry. It is used in the proofs only:
  where every index is a key, \<open>build_recommendations\<close> is this list without the indices.
\<close>

fun indexed_recommendations ::
  "(int \<times> int) list \<Rightarrow> int set option \<Rightarrow> nat \<Rightarrow> real list \<Rightarrow> (nat \<times> int \<times> real) list" where
  "indexed_recommendations tbl ex idx [] = []"
| "indexed_recommendations tbl ex idx (score # rest) =
     (case map_of tbl (int idx) of
        None \<Rightarrow> indexed_recommendations tbl ex (Suc idx) rest
      | Some item_id \<Rightarrow>
          (if excluded ex item_id then indexed_recommendations tbl ex (Suc idx) rest
           else (idx, item_id, score) # indexed_recommendations tbl ex (Suc idx) rest))"

text \<open>Order of two indexed entries in a ranking: higher score first, then lower index.\<close>

definition rank_before :: "(nat \<times> int \<times> real) \<Rightarrow> (nat \<times> int \<times> real) \<Rightarrow> bool" where
  "rank_before a b \<longleftrightarrow>
     snd (snd b) < snd (snd a) \<or> (snd (snd a) = snd (snd b) \<and> fst a < fst b)"

text \<open>Every row of a factor array has the same number of columns.\<close>

definition rectangular :: "nat \<Rightarrow> real list list \<Rightarrow> bool" where
  "rectangular k M \<longleftrightarrow> (\<forall>row \<in> set M. length row = k)"

text \<open>
  What \<open>fit\<close> establishes: both factor arrays have \<open>n_factors\<close> columns, every encoded
  user index addresses a row of the user factors, and every row index of the item factors
  is a key of the decoding table.
\<close>

definition fitted_cf :: "cf_model \<Rightarrow> bool" where
  "fitted_cf m \<longleftrightarrow>
     rectangular (n_factors m) (user_factors m)
     \<and> rectangular (n_factors m) (item_factors m)
     \<and> (\<forall>p \<in> set (user_id_to_idx m). 0 \<le> snd p \<and> snd p < int (length (user_factors m)))
     \<and> (\<forall>idx \<in> {0..<length (item_factors m)}. map_of (item_idx_to_id m) (int idx) \<noteq> None)"

definition small_cf :: cf_model where
  "small_cf = \<lparr> n_factors = 1, user_factors = [[1], [2]], item_factors = [[1], [2], [1]],
     user_idx_to_id = [(0, 10), (1, 11)], item_idx_to_id = [(0, 20), (1, 21), (2, 22)],
     user_id_to_idx = [(10, 0), (11, 1)], item_id_to_idx = [(20, 0), (21, 1), (22, 2)],
     global_mean = 3 \<rparr>"

definition stale_cf :: cf_model where
  "stale_cf = \<lparr> n_factors = 1, user_factors = [[1]], item_factors = [[1], [2]],
     user_idx_to_id = [(0, 10)], item_idx_to_id = [(0, 20), (1, 21), (2, 22)],
     user_id_to_idx = [(10, 0)], item_id_to_idx = [(20, 0), (21, 1), (22, 2)],
     global_mean = 7 / 2 \<rparr>"

section \<open>ContentBasedModel\<close>

text \<open>
  A row of the item table with the columns that \<open>fit\<close> reads. The numeric columns are
  real-valued.
\<close>

record recipe =
  r_id :: int
  r_ingredients :: "string list"
  r_tags :: "string list"
  r_n_ingredients :: real
  r_n_steps :: real
  r_minutes :: real
  r_health_score :: real
  r_calories :: real
  r_protein :: real

text \<open>
  The fitted content model: the two fitted \<open>TfidfVectorizer\<close> objects (a vocabulary
  with its weights), the recipe ids in table order and the feature matrix as a list of
  dense rows.
\<close>

type_synonym vectorizer = "(string \<times> real) list"

record cb_model =
  tfidf_ingredients :: vectorizer
  tfidf_tags :: vectorizer
  recipe_ids :: "int list"
  feature_matrix :: "real list list"

text \<open>
  \<open>mean(axis=0)\<close> and \<open>std(axis=0)\<close> of numpy work column by column; \<open>std\<close> is the
  population standard deviation. On an empty column numpy yields NaN; no statement below
  reads the mean or the deviation of an empty column.
\<close>

definition np_mean :: "real list \<Rightarrow> real" where
  "np_mean xs = sum_list xs / real (length xs)"

definition np_std :: "real list \<Rightarrow> real" where
  "np_std xs = sqrt (np_mean (map (\<lambda>x. (x - np_mean xs)\<^sup>2) xs))"

definition column :: "real list list \<Rightarrow> nat \<Rightarrow> real list" where
  "column M j = map (\<lambda>row. row ! j) M"

text \<open>
  A division of array elements. numpy reports a zero divisor with a warning and stores
  inf or nan; here it is the failure \<open>ZeroDivisionError\<close>, so that a step that never
  divides by zero is a step that never returns this failure.
\<close>

definition checked_div :: "real \<Rightarrow> real \<Rightarrow> error + real" where
  "checked_div a b = (if b = 0 then Inl ZeroDivisionError else Inr (a / b))"

text \<open>The six numeric columns selected by \<open>fit\<close>, one row per recipe.\<close>

definition numerical_features :: "recipe list \<Rightarrow> real list list" where
  "numerical_features recipes_df =
     map (\<lambda>r. [r_n_ingredients r, r_n_steps r, r_minutes r,
                r_health_score r, r_calories r, r_protein r]) recipes_df"

text \<open>The divisor of column \<open>j\<close>: \<open>numerical_features.std(axis=0) + 1e-8\<close>.\<close>

definition zscore_denominator :: "real list list \<Rightarrow> nat \<Rightarrow> real" where
  "zscore_denominator M j = np_std (column M j) + 1 / 10 ^ 8"

text \<open>
  \<open>(numerical_features - numerical_features.mean(axis=0)) /
  (numerical_features.std(axis=0) + 1e-8)\<close>, element by element.
\<close>

definition normalize_numerical :: "real list list \<Rightarrow> error + real list list" where
  "normalize_numerical M =
     collect (map (\<lambda>row.
       collect (map (\<lambda>j. checked_div (row ! j - np_mean (column M j)) (zscore_denominator M j))
                  [0..<length row])) M)"

text \<open>\<open>hstack\<close> of three blocks with the same number of rows.\<close>

definition hstack3 ::
  "real list list \<Rightarrow> real list list \<Rightarrow> real list list \<Rightarrow> error + real list list" where
  "hstack3 A B C =
     (if length A = length B \<and> length B = length C
      then Inr (map (\<lambda>(a, b, c). a @ b @ c) (zip A (zip B C)))
      else Inl ValueError)"

text \<open>
  \<open>fit\<close>. The two vectorizers are fitted and the two TF-IDF blocks are computed by
  scikit-learn's \<open>fit_transform\<close>; its results are arguments here, one row per recipe.
\<close>

definition cb_fit ::
  "recipe list \<Rightarrow> vectorizer \<times> real list list \<Rightarrow> vectorizer \<times> real list list
     \<Rightarrow> error + cb_model" where
  "cb_fit recipes_df ingredients_fit tags_fit =
     (case normalize_numerical (numerical_features recipes_df) of
        Inl e \<Rightarrow> Inl e
      | Inr numerical \<Rightarrow>
     (case hstack3 (snd ingredients_fit) (snd tags_fit) numerical of
        Inl e \<Rightarrow> Inl e
      | Inr fm \<Rightarrow>
          Inr \<lparr> tfidf_ingredients = fst ingredients_fit, tfidf_tags = fst tags_fit,
                recipe_ids = map r_id recipes_df, feature_matrix = fm \<rparr>))"

text \<open>\<open>xs.index(x)\<close>: the first position of \<open>x\<close>, ValueError when it does not occur.\<close>

fun list_index :: "'a list \<Rightarrow> 'a \<Rightarrow> error + nat" where
  "list_index [] x = Inl ValueError"
| "list_index (y # ys) x =
     (if y = x then Inr 0
      else (case list_index ys x of Inl e \<Rightarrow> Inl e | Inr i \<Rightarrow> Inr (Suc i)))"

text \<open>
  scikit-learn's \<open>cosine_similarity(X, Y)\<close>: every row is divided by its Euclidean norm
  (a row of norm zero is left as it is), then the dot products are taken.
\<close>

definition l2_norm :: "real list \<Rightarrow> real" where
  "l2_norm v = sqrt (sum_list (map (\<lambda>x. x * x) v))"

definition normalize_row :: "real list \<Rightarrow> real list" where
  "normalize_row v = (if l2_norm v = 0 then v else map (\<lambda>x. x / l2_norm v) v)"

definition cosine_similarity :: "real list \<Rightarrow> real list list \<Rightarrow> error + real list" where
  "cosine_similarity v M = np_dot_mat (map normalize_row M) (normalize_row v)"

text \<open>
  \<open>argsort\<close>: the indices that sort the array in ascending order. Among equal values the
  order that numpy's default sort gives is not specified; \<open>get_similar_items\<close> takes the
  index sort as an argument, and \<open>argsort_stable\<close> is the one that keeps equal values in
  index order.
\<close>

definition argsort_stable :: "real list \<Rightarrow> nat list" where
  "argsort_stable xs = map snd (sort_key fst (zip xs [0..<length xs]))"

text \<open>
  \<open>get_similar_items\<close>. The slice \<open>[::-1][1:n_similar+1]\<close> reverses the index order and
  drops its first position.
\<close>

definition get_similar_items ::
  "(real list \<Rightarrow> nat list) \<Rightarrow> cb_model \<Rightarrow> int \<Rightarrow> int \<Rightarrow> error + (int \<times> real) list" where
  "get_similar_items argsort m item_id n_similar =
     (case list_index (recipe_ids m) item_id of
        Inl e \<Rightarrow> Inr []
      | Inr item_idx \<Rightarrow>
     (case py_index (feature_matrix m) (int item_idx) of
        Inl e \<Rightarrow> Inl e
      | Inr item_vector \<Rightarrow>
     (case cosine_similarity item_vector (feature_matrix m) of
        Inl e \<Rightarrow> Inl e
      | Inr similarities \<Rightarrow>
          (let similar_indices = drop 1 (py_take (n_similar + 1) (rev (argsort similarities)))
           in collect (map (\<lambda>idx.
                (case py_index (recipe_ids m) (int idx) of
                   Inl e \<Rightarrow> Inl e
                 | Inr rid \<Rightarrow> Inr (rid, similarities ! idx))) similar_indices)))))"

text \<open>The mean of a non-empty block of rows along axis 0.\<close>

definition mean_axis0 :: "real list list \<Rightarrow> real list" where
  "mean_axis0 rows =
     (case rows of [] \<Rightarrow> [] | r # _ \<Rightarrow> map (\<lambda>j. np_mean (column rows j)) [0..<length r])"

text \<open>
  \<open>recommend_based_on_profile\<close>: unknown liked ids are skipped, the profile is the mean
  of the liked rows, and the liked ids are left out of the ranking.
\<close>

definition liked_indices :: "int list \<Rightarrow> int list \<Rightarrow> nat list" where
  "liked_indices ids liked_items =
     concat (map (\<lambda>item_id.
       (case list_index ids item_id of Inl e \<Rightarrow> [] | Inr idx \<Rightarrow> [idx])) liked_items)"

definition recommend_based_on_profile ::
  "cb_model \<Rightarrow> int list \<Rightarrow> int \<Rightarrow> error + (int \<times> real) list" where
  "recommend_based_on_profile m liked_items n_recommendations =
     (if liked_items = [] then Inr []
      else if liked_indices (recipe_ids m) liked_items = [] then Inr []
      else
     (case collect (map (\<lambda>idx. py_index (feature_matrix m) (int idx))
                      (liked_indices (recipe_ids m) liked_items)) of
        Inl e \<Rightarrow> Inl e
      | Inr rows \<Rightarrow>
     (case cosine_similarity (mean_axis0 rows) (feature_matrix m) of
        Inl e \<Rightarrow> Inl e
      | Inr similarities \<Rightarrow>
          Inr (py_take n_recommendations
                 (sort_by_score_desc
                    (filter (\<lambda>(recipe_id, score). recipe_id \<notin> set liked_items)
                       (zip (recipe_ids m) similarities)))))))"

text \<open>Two recipes with the same feature row, and a table with a constant column.\<close>

definition twin_cb :: cb_model where
  "twin_cb = \<lparr> tfidf_ingredients = [], tfidf_tags = [],
     recipe_ids = [1, 2], feature_matrix = [[1, 0], [1, 0]] \<rparr>"

definition flat_table :: "real list list" where
  "flat_table = [[3, 2, 30, 50, 100, 5], [3, 4, 30, 50, 100, 5]]"

section \<open>HybridRecommender\<close>

text \<open>A row of the interaction table, and the four codec tables of \<open>id_mappings\<close>.\<close>

record interaction =
  i_user_id :: int
  i_recipe_id :: int
  i_rating :: real

record id_mappings =
  idx_to_user :: "(int \<times> int) list"
  idx_to_recipe :: "(int \<times> int) list"
  user_to_idx :: "(int \<times> int) list"
  recipe_to_idx :: "(int \<times> int) list"

text \<open>
  The recommender. \<open>recipes_df\<close>, \<open>interactions_df\<close> and \<open>id_mappings\<close> are \<open>None\<close> until
  \<open>fit\<close> sets them.
\<close>

record hybrid =
  cf_model :: cf_model
  cb_model :: cb_model
  cf_weight :: real
  cb_weight :: real
  recipes_df :: "recipe list option"
  interactions_df :: "interaction list option"
  id_mappings :: "id_mappings option"

text \<open>The default weights of the constructor.\<close>

definition default_cf_weight :: real where
  "default_cf_weight = 6 / 10"

definition default_cb_weight :: real where
  "default_cb_weight = 4 / 10"

text \<open>
  \<open>{item_id: score for item_id, score in recs}\<close> read with \<open>.get(item_id, 0)\<close>: a later
  pair with the same key replaces an earlier one.
\<close>

definition dict_get :: "('k \<times> 'v) list \<Rightarrow> 'k \<Rightarrow> 'v \<Rightarrow> 'v" where
  "dict_get recs k dflt = (case map_of (rev recs) k of None \<Rightarrow> dflt | Some v \<Rightarrow> v)"

text \<open>The user's rows of the interaction table: the rated set and the liked list.\<close>

definition rated_items :: "interaction list \<Rightarrow> int \<Rightarrow> int set" where
  "rated_items df uid = set (map i_recipe_id (filter (\<lambda>r. i_user_id r = uid) df))"

definition liked_items :: "interaction list \<Rightarrow> int \<Rightarrow> int list" where
  "liked_items df uid =
     map i_recipe_id (filter (\<lambda>r. 4 \<le> i_rating r) (filter (\<lambda>r. i_user_id r = uid) df))"

text \<open>The body of the loop over \<open>all_items\<close>: normalisation and weighted combination.\<close>

definition hybrid_score ::
  "hybrid \<Rightarrow> (int \<times> real) list \<Rightarrow> (int \<times> real) list \<Rightarrow> int \<Rightarrow> real" where
  "hybrid_score h cf_recs cb_recs item_id =
     (let cf_score = dict_get cf_recs item_id 0;
          cb_score = dict_get cb_recs item_id 0;
          cf_score_norm = (if 0 < cf_score then cf_score / 5 else 0);
          cb_score_norm = (if 0 < cb_score then cb_score else 0)
      in cf_weight h * cf_score_norm + cb_weight h * cb_score_norm)"

text \<open>
  \<open>all_items\<close> is a Python set, and the order in which a set is iterated is not
  specified. \<open>set_order\<close> stands for it: it maps the elements put into the set to the
  order of iteration. \<open>hybrid_scores\<close> is the dictionary built by the loop, in insertion
  order.
\<close>

definition hybrid_scores ::
  "(int list \<Rightarrow> int list) \<Rightarrow> hybrid \<Rightarrow> int set \<Rightarrow> (int \<times> real) list \<Rightarrow> (int \<times> real) list
     \<Rightarrow> (int \<times> real) list" where
  "hybrid_scores set_order h rated cf_recs cb_recs =
     map (\<lambda>item_id. (item_id, hybrid_score h cf_recs cb_recs item_id))
       (filter (\<lambda>item_id. item_id \<notin> rated)
          (set_order (map fst cf_recs @ map fst cb_recs)))"

text \<open>
  \<open>recommend\<close>. Indexing \<open>self.interactions_df\<close> while it is \<open>None\<close> raises TypeError;
  the errors of the two sub-models are not caught.
\<close>

definition recommend ::
  "(int list \<Rightarrow> int list) \<Rightarrow> hybrid \<Rightarrow> int \<Rightarrow> int \<Rightarrow> error + (int \<times> real) list" where
  "recommend set_order h uid n_recommendations =
     (case interactions_df h of
        None \<Rightarrow> Inl TypeError
      | Some df \<Rightarrow>
     (case recommend_items (cf_model h) uid (n_recommendations * 3)
             (Some (rated_items df uid)) of
        Inl e \<Rightarrow> Inl e
      | Inr cf_recs \<Rightarrow>
     (case recommend_based_on_profile (cb_model h) (liked_items df uid)
             (n_recommendations * 3) of
        Inl e \<Rightarrow> Inl e
      | Inr cb_recs \<Rightarrow>
          Inr (py_take n_recommendations
                 (sort_by_score_desc
                    (hybrid_scores set_order h (rated_items df uid) cf_recs cb_recs))))))"

text \<open>
  The files written by \<open>save_model\<close>. Pickling and unpickling a value gives the value
  back, so a file holds the pickled dictionary itself.
\<close>

record model_config_pkl =
  saved_cf_weight :: real
  saved_cb_weight :: real
  saved_id_mappings :: "id_mappings option"

record cf_model_pkl =
  saved_user_factors :: "real list list"
  saved_item_factors :: "real list list"
  saved_user_idx_to_id :: "(int \<times> int) list"
  saved_item_idx_to_id :: "(int \<times> int) list"
  saved_user_id_to_idx :: "(int \<times> int) list"
  saved_item_id_to_idx :: "(int \<times> int) list"
  saved_global_mean :: real
  saved_n_factors :: nat

record cb_model_pkl =
  saved_recipe_ids :: "int list"
  saved_feature_matrix :: "real list list"

record model_dir =
  model_config_file :: model_config_pkl
  cf_model_file :: cf_model_pkl
  cb_model_file :: cb_model_pkl
  tfidf_ingredients_file :: vectorizer
  tfidf_tags_file :: vectorizer

definition save_model :: "hybrid \<Rightarrow> model_dir" where
  "save_model h =
     \<lparr> model_config_file =
         \<lparr> saved_cf_weight = cf_weight h, saved_cb_weight = cb_weight h,
           saved_id_mappings = id_mappings h \<rparr>,
       cf_model_file =
         \<lparr> saved_user_factors = user_factors (cf_model h),
           saved_item_factors = item_factors (cf_model h),
           saved_user_idx_to_id = user_idx_to_id (cf_model h),
           saved_item_idx_to_id = item_idx_to_id (cf_model h),
           saved_user_id_to_idx = user_id_to_idx (cf_model h),
           saved_item_id_to_idx = item_id_to_idx (cf_model h),
           saved_global_mean = global_mean (cf_model h),
           saved_n_factors = n_factors (cf_model h) \<rparr>,
       cb_model_file =
         \<lparr> saved_recipe_ids = recipe_ids (cb_model h),
           saved_feature_matrix = feature_matrix (cb_model h) \<rparr>,
       tfidf_ingredients_file = tfidf_ingredients (cb_model h),
       tfidf_tags_file = tfidf_tags (cb_model h) \<rparr>"

text \<open>
  \<open>load_model\<close> starts from \<open>cls()\<close> and assigns the saved fields; \<open>recipes_df\<close> and
  \<open>interactions_df\<close> are not saved and stay \<open>None\<close>.
\<close>

definition load_model :: "model_dir \<Rightarrow> hybrid" where
  "load_model d =
     \<lparr> cf_model =
         \<lparr> n_factors = saved_n_factors (cf_model_file d),
           user_factors = saved_user_factors (cf_model_file d),
           item_factors = saved_item_factors (cf_model_file d),
           user_idx_to_id = saved_user_idx_to_id (cf_model_file d),
           item_idx_to_id = saved_item_idx_to_id (cf_model_file d),
           user_id_to_idx = saved_user_id_to_idx (cf_model_file d),
           item_id_to_idx = saved_item_id_to_idx (cf_model_file d),
           global_mean = saved_global_mean (cf_model_file d) \<rparr>,
       cb_model =
         \<lparr> tfidf_ingredients = tfidf_ingredients_file d,
           tfidf_tags = tfidf_tags_file d,
           recipe_ids = saved_recipe_ids (cb_model_file d),
           feature_matrix = saved_feature_matrix (cb_model_file d) \<rparr>,
       cf_weight = saved_cf_weight (model_config_file d),
       cb_weight = saved_cb_weight (model_config_file d),
       recipes_df = None,
       interactions_df = None,
       id_mappings = saved_id_mappings (model_config_file d) \<rparr>"

text \<open>
  The fusion score in the words of the specification: the collaborative score divided by
  5, the content score with negative values clamped to 0, and 0 for a score that is
  absent.
\<close>

definition spec_hybrid_score :: "real \<Rightarrow> real \<Rightarrow> real option \<Rightarrow> real option \<Rightarrow> real" where
  "spec_hybrid_score w_cf w_cb cf cb =
     w_cf * (case cf of None \<Rightarrow> 0 | Some c \<Rightarrow> c / 5)
     + w_cb * (case cb of None \<Rightarrow> 0 | Some b \<Rightarrow> max b 0)"

text \<open>
  Two recommenders with the default weights and one user, 10. In \<open>mixed_hybrid\<close> the
  user rated recipe 21 with 3 and recipe 22 with 5; the collaborative score of recipe 20
  is negative, and recipe 21 has the same feature row as the liked recipe 22. In
  \<open>hot_hybrid\<close> the user rated recipe 21 with 3 and the collaborative score of recipe 20
  is 10.
\<close>

definition two_recipes_cb :: cb_model where
  "two_recipes_cb = \<lparr> tfidf_ingredients = [], tfidf_tags = [],
     recipe_ids = [20, 21], feature_matrix = [[1, 0], [0, 1]] \<rparr>"

definition mixed_interactions :: "interaction list" where
  "mixed_interactions = [\<lparr> i_user_id = 10, i_recipe_id = 21, i_rating = 3 \<rparr>,
                         \<lparr> i_user_id = 10, i_recipe_id = 22, i_rating = 5 \<rparr>]"

definition mixed_hybrid :: hybrid where
  "mixed_hybrid =
     \<lparr> cf_model = \<lparr> n_factors = 1, user_factors = [[1]], item_factors = [[- 8], [0], [2]],
         user_idx_to_id = [(0, 10)], item_idx_to_id = [(0, 20), (1, 21), (2, 22)],
         user_id_to_idx = [(10, 0)], item_id_to_idx = [(20, 0), (21, 1), (22, 2)],
         global_mean = 3 \<rparr>,
       cb_model = \<lparr> tfidf_ingredients = [], tfidf_tags = [],
         recipe_ids = [20, 21, 22], feature_matrix = [[0, 1], [1, 0], [1, 0]] \<rparr>,
       cf_weight = default_cf_weight, cb_weight = default_cb_weight,
       recipes_df = None,
       interactions_df = Some mixed_interactions,
       id_mappings = None \<rparr>"

definition hot_hybrid :: hybrid where
  "hot_hybrid =
     \<lparr> cf_model = \<lparr> n_factors = 1, user_factors = [[7]], item_factors = [[1], [0]],
         user_idx_to_id = [(0, 10)], item_idx_to_id = [(0, 20), (1, 21)],
         user_id_to_idx = [(10, 0)], item_id_to_idx = [(20, 0), (21, 1)],
         global_mean = 3 \<rparr>,
       cb_model = two_recipes_cb,
       cf_weight = default_cf_weight, cb_weight = default_cb_weight,
       recipes_df = None,
       interactions_df = Some [\<lparr> i_user_id = 10, i_recipe_id = 21, i_rating = 3 \<rparr>],
       id_mappings = None \<rparr>"

section \<open>DataPreprocessor.create_user_item_matrix\<close>

text \<open>
  scikit-learn's \<open>LabelEncoder.fit_transform\<close>: the classes are the distinct values in
  ascending order, and every value is replaced by its position among the classes.
\<close>

definition label_classes :: "int list \<Rightarrow> int list" where
  "label_classes ys = sort (remdups ys)"

definition label_encode :: "int list \<Rightarrow> int \<Rightarrow> nat" where
  "label_encode classes y = length (takeWhile (\<lambda>c. c \<noteq> y) classes)"

definition fit_transform :: "int list \<Rightarrow> nat list" where
  "fit_transform ys = map (label_encode (label_classes ys)) ys"

text \<open>
  scipy's \<open>csr_matrix((data, (row, col)), shape)\<close>: the triples are taken in coordinate
  format and converted to CSR, and the conversion sums the values of entries that have
  the same row and column. The matrix is kept as its shape and the triples supplied;
  \<open>csr_get\<close> reads an element of the converted matrix.
\<close>

record csr_matrix =
  shape :: "nat \<times> nat"
  triples :: "(nat \<times> nat \<times> real) list"

definition csr_get :: "csr_matrix \<Rightarrow> nat \<Rightarrow> nat \<Rightarrow> real" where
  "csr_get M r c =
     sum_list (map (\<lambda>t. snd (snd t)) (filter (\<lambda>t. fst t = r \<and> fst (snd t) = c) (triples M)))"

text \<open>
  \<open>create_user_item_matrix\<close>: the two index columns, the two \<open>nunique\<close> counts and the
  sparse matrix of the ratings.
\<close>

definition create_user_item_matrix :: "interaction list \<Rightarrow> csr_matrix" where
  "create_user_item_matrix df =
     (let user_idx = fit_transform (map i_user_id df);
          recipe_idx = fit_transform (map i_recipe_id df);
          n_users = length (remdups user_idx);
          n_recipes = length (remdups recipe_idx)
      in \<lparr> shape = (n_users, n_recipes),
           triples = zip user_idx (zip recipe_idx (map i_rating df)) \<rparr>)"

text \<open>
  The value that last-write-wins would leave at a pair: the rating of the last row of the
  table with that user and recipe.
\<close>

definition last_supplied_rating :: "interaction list \<Rightarrow> int \<Rightarrow> int \<Rightarrow> real" where
  "last_supplied_rating df u r =
     i_rating (last (filter (\<lambda>x. i_user_id x = u \<and> i_recipe_id x = r) df))"

text \<open>A table in which user 1 rates recipe 7 twice, first 3 and then 4.\<close>

definition twice_rated :: "interaction list" where
  "twice_rated = [\<lparr> i_user_id = 1, i_recipe_id = 7, i_rating = 3 \<rparr>,
                  \<lparr> i_user_id = 1, i_recipe_id = 7, i_rating = 4 \<rparr>]"

section \<open>The sampling step of evaluate_model_comprehensive\<close>











section \<open>Properties of predict\<close>

lemma row_at_in_set: "in_range xs i \<Longrightarrow> row_at xs i \<in> set xs"
  unfolding in_range_def row_at_def by (auto intro!: nth_mem)

lemma np_clip_bounds: "lo \<le> hi \<Longrightarrow> lo \<le> np_clip x lo hi \<and> np_clip x lo hi \<le> hi"
  unfolding np_clip_def by auto

text \<open>
  C3. When both ids are keys of the codec tables and both decoded indices are in range
  of the factor arrays (whose rows all have \<open>k\<close> columns), \<open>predict\<close> returns the global
  mean plus the dot product of the two factor rows, clamped to the interval from 1 to 5;
  so the value returned lies between 1 and 5.
\<close>

theorem predict_known_pair_clamped:
  assumes "map_of (user_id_to_idx m) u = Some ui"
    and "map_of (item_id_to_idx m) i = Some ii"
    and "in_range (user_factors m) ui"
    and "in_range (item_factors m) ii"
    and "rectangular k (user_factors m)"
    and "rectangular k (item_factors m)"
  shows "predict m u i =
           Inr (np_clip (global_mean m
                  + sum_list (map2 (*) (row_at (user_factors m) ui) (row_at (item_factors m) ii)))
                1 5)
         \<and> (\<exists>r. predict m u i = Inr r \<and> 1 \<le> r \<and> r \<le> 5)"
proof -
  have lu: "length (row_at (user_factors m) ui) = k"
    using assms(3,5) row_at_in_set unfolding rectangular_def by blast
  have li: "length (row_at (item_factors m) ii) = k"
    using assms(4,6) row_at_in_set unfolding rectangular_def by blast
  have eq: "predict m u i =
      Inr (np_clip (global_mean m
             + sum_list (map2 (*) (row_at (user_factors m) ui) (row_at (item_factors m) ii)))
           1 5)"
    using assms(1-4) lu li
    by (simp add: predict_def predict_try_def dict_lookup_def py_index_def np_dot_def)
  show ?thesis
    using eq np_clip_bounds [of 1 5] by simp
qed

theorem predict_known_pair_clamped_witness:
  "predict stale_cf 10 21 = Inr 5 \<and> (\<exists>r. predict stale_cf 10 21 = Inr r \<and> 1 \<le> r \<and> r \<le> 5)"
proof -
  have a: "map_of (user_id_to_idx stale_cf) 10 = Some 0"
    and b: "map_of (item_id_to_idx stale_cf) 21 = Some 1"
    and c: "in_range (user_factors stale_cf) 0"
    and d: "in_range (item_factors stale_cf) 1"
    and e: "rectangular 1 (user_factors stale_cf)"
    and f: "rectangular 1 (item_factors stale_cf)"
    by (simp_all add: stale_cf_def in_range_def rectangular_def)
  show ?thesis
    using predict_known_pair_clamped [OF a b c d e f]
    by (simp add: stale_cf_def row_at_def np_clip_def)
qed

text \<open>
  C7 as stated: a query whose ids are known but whose decoded index is out of range is
  rejected with an error. In \<open>stale_cf\<close> the item id 22 decodes to index 2 while the item
  factor array has two rows; \<open>predict\<close> returns the global mean and no error.
\<close>

theorem predict_stale_index_counterexample:
  "map_of (user_id_to_idx stale_cf) 10 = Some 0
   \<and> map_of (item_id_to_idx stale_cf) 22 = Some 2
   \<and> \<not> in_range (item_factors stale_cf) 2
   \<and> \<not> isl (predict stale_cf 10 22)
   \<and> predict stale_cf 10 22 = Inr (global_mean stale_cf)"
  by (simp add: stale_cf_def in_range_def predict_def predict_try_def dict_lookup_def
      py_index_def row_at_def)

text \<open>
  C7 amended. When both ids are known to the codec and a decoded index is out of range
  of its factor array, \<open>predict\<close> catches the IndexError and returns the global mean, the
  same fallback value as for an unknown id.
\<close>

theorem predict_stale_index_fallback:
  assumes "map_of (user_id_to_idx m) u = Some ui"
    and "map_of (item_id_to_idx m) i = Some ii"
    and "\<not> in_range (user_factors m) ui \<or> \<not> in_range (item_factors m) ii"
  shows "predict m u i = Inr (global_mean m)"
  using assms
  by (auto simp: predict_def predict_try_def dict_lookup_def py_index_def)

theorem predict_stale_index_fallback_witness:
  "predict stale_cf 10 22 = Inr (7 / 2)"
proof -
  have a: "map_of (user_id_to_idx stale_cf) 10 = Some 0"
    and b: "map_of (item_id_to_idx stale_cf) 22 = Some 2"
    and c: "\<not> in_range (user_factors stale_cf) 0 \<or> \<not> in_range (item_factors stale_cf) 2"
    by (simp_all add: stale_cf_def in_range_def)
  show ?thesis
    using predict_stale_index_fallback [OF a b c] by (simp add: stale_cf_def)
qed

section \<open>Properties of recommend_items\<close>

lemma collect_Inr:
  "(\<forall>r \<in> set rs. \<not> isl r) \<Longrightarrow> collect rs = Inr (map projr rs)"
  by (induction rs) (auto split: sum.splits)

lemma np_dot_mat_rect:
  assumes "rectangular k M" "length v = k"
  shows "\<exists>ds. np_dot_mat M v = Inr ds \<and> length ds = length M"
proof -
  have "\<forall>r \<in> set (map (\<lambda>row. np_dot row v) M). \<not> isl r"
    using assms by (auto simp: rectangular_def np_dot_def)
  then show ?thesis
    unfolding np_dot_mat_def using collect_Inr by fastforce
qed

lemma build_indexed:
  "(\<forall>j < length scores. map_of tbl (int (i0 + j)) \<noteq> None) \<Longrightarrow>
   build_recommendations tbl ex i0 scores =
     Inr (map snd (indexed_recommendations tbl ex i0 scores))"
proof (induction scores arbitrary: i0)
  case Nil
  then show ?case by simp
next
  case (Cons s scores)
  have "\<forall>j < length scores. map_of tbl (int (Suc i0 + j)) \<noteq> None"
    using Cons.prems by (metis add_Suc_shift length_Cons not_less_eq)
  then have ih: "build_recommendations tbl ex (Suc i0) scores =
     Inr (map snd (indexed_recommendations tbl ex (Suc i0) scores))"
    by (rule Cons.IH)
  have "map_of tbl (int i0) \<noteq> None"
    using Cons.prems by (metis add.right_neutral length_Cons zero_less_Suc)
  then obtain item where "map_of tbl (int i0) = Some item" by blast
  then show ?case using ih by (simp add: dict_lookup_def)
qed

lemma indexed_props:
  "\<forall>t \<in> set (indexed_recommendations tbl ex i0 scores).
     i0 \<le> fst t \<and> map_of tbl (int (fst t)) = Some (fst (snd t)) \<and> \<not> excluded ex (fst (snd t))"
proof (induction scores arbitrary: i0)
  case Nil
  then show ?case by simp
next
  case (Cons s scores)
  have "\<forall>t \<in> set (indexed_recommendations tbl ex (Suc i0) scores).
     i0 \<le> fst t \<and> map_of tbl (int (fst t)) = Some (fst (snd t)) \<and> \<not> excluded ex (fst (snd t))"
    using Cons.IH [of "Suc i0"] by auto
  then show ?case by (auto split: option.splits)
qed

lemma indexed_increasing:
  "sorted_wrt (\<lambda>a b. fst a < fst b) (indexed_recommendations tbl ex i0 scores)"
proof (induction scores arbitrary: i0)
  case Nil
  then show ?case by simp
next
  case (Cons s scores)
  have "\<forall>t \<in> set (indexed_recommendations tbl ex (Suc i0) scores). i0 < fst t"
    using indexed_props [of tbl ex "Suc i0" scores] by auto
  then show ?case using Cons.IH [of "Suc i0"] by (auto split: option.splits)
qed

lemma insort_rank:
  assumes "sorted_wrt rank_before ys" "\<forall>y \<in> set ys. fst x < fst y"
  shows "sorted_wrt rank_before (insort_key (\<lambda>t. - snd (snd t)) x ys)"
  using assms
proof (induction ys)
  case Nil
  then show ?case by simp
next
  case (Cons y ys)
  show ?case
  proof (cases "- snd (snd x) \<le> - snd (snd y)")
    case True
    have "\<forall>z \<in> set (y # ys). rank_before x z"
    proof
      fix z assume z: "z \<in> set (y # ys)"
      have "snd (snd z) \<le> snd (snd y)"
        using z Cons.prems(1) by (auto simp: rank_before_def)
      moreover have "fst x < fst z" using z Cons.prems(2) by blast
      ultimately show "rank_before x z" using True by (auto simp: rank_before_def)
    qed
    then show ?thesis using True Cons.prems(1) by simp
  next
    case False
    have "sorted_wrt rank_before (insort_key (\<lambda>t. - snd (snd t)) x ys)"
      using Cons by simp
    moreover have "rank_before y x" using False by (simp add: rank_before_def)
    ultimately show ?thesis using False Cons.prems(1) by (auto simp: set_insort_key)
  qed
qed

lemma sort_rank:
  "sorted_wrt (\<lambda>a b. fst a < fst b) xs \<Longrightarrow>
   sorted_wrt rank_before (sort_key (\<lambda>t. - snd (snd t)) xs)"
proof (induction xs)
  case Nil
  then show ?case by simp
next
  case (Cons x xs)
  then show ?case by (auto intro!: insort_rank)
qed

lemma insort_key_map:
  "insort_key f (h x) (map h ys) = map h (insort_key (\<lambda>t. f (h t)) x ys)"
  by (induction ys) auto

lemma sort_key_map_commute:
  "sort_key f (map h xs) = map h (sort_key (\<lambda>t. f (h t)) xs)"
  by (induction xs) (auto simp: insort_key_map)

lemma recommend_items_indexed:
  assumes fit: "fitted_cf m" and n: "0 \<le> n" and u: "map_of (user_id_to_idx m) u = Some ui"
  shows "\<exists>scores. recommend_items m u n ex =
           Inr (map snd (take (nat n) (sort_key (\<lambda>t. - snd (snd t))
                  (indexed_recommendations (item_idx_to_id m) ex 0 scores))))"
proof -
  have "(u, ui) \<in> set (user_id_to_idx m)" using u by (rule map_of_SomeD)
  then have rng: "0 \<le> ui \<and> ui < int (length (user_factors m))"
    using fit unfolding fitted_cf_def by fastforce
  then have ir: "in_range (user_factors m) ui" by (simp add: in_range_def)
  then have "length (row_at (user_factors m) ui) = n_factors m"
    using fit row_at_in_set unfolding fitted_cf_def rectangular_def by blast
  then obtain ds where ds: "np_dot_mat (item_factors m) (row_at (user_factors m) ui) = Inr ds"
      and len: "length ds = length (item_factors m)"
    using fit np_dot_mat_rect unfolding fitted_cf_def by blast
  define scores where "scores = map (\<lambda>d. global_mean m + d) ds"
  have "\<forall>j < length scores. map_of (item_idx_to_id m) (int (0 + j)) \<noteq> None"
    using fit len unfolding fitted_cf_def scores_def by simp
  then have b: "build_recommendations (item_idx_to_id m) ex 0 scores =
      Inr (map snd (indexed_recommendations (item_idx_to_id m) ex 0 scores))"
    by (rule build_indexed)
  have "recommend_items m u n ex =
      Inr (map snd (take (nat n) (sort_key (\<lambda>t. - snd (snd t))
             (indexed_recommendations (item_idx_to_id m) ex 0 scores))))"
    using u ir ds b n
    by (simp add: recommend_items_def dict_lookup_def py_index_def scores_def [symmetric]
        py_take_def sort_by_score_desc_def sort_key_map_commute take_map)
  then show ?thesis by blast
qed

lemma small_cf_fitted: "fitted_cf small_cf"
  by (simp add: fitted_cf_def small_cf_def rectangular_def atLeast0_lessThan_Suc numeral_3_eq_3)


text \<open>
  C4. For a fitted collaborative model, any user id, any requested count \<open>n\<close> (a count,
  so not negative) and any exclusion set, \<open>recommend_items\<close> returns a list of at most
  \<open>n\<close> entries, none of them in the exclusion set, in which every earlier entry has a
  score at least as high as every later one and, for equal scores, the lower item index;
  for a user id that is not a key of the codec the list is empty.
\<close>

theorem recommend_items_ranked:
  assumes fit: "fitted_cf m" and n: "0 \<le> n"
  shows "\<exists>recs idxs.
           recommend_items m u n ex = Inr recs
         \<and> int (length recs) \<le> n
         \<and> (\<forall>S. ex = Some S \<longrightarrow> fst ` set recs \<inter> S = {})
         \<and> length idxs = length recs
         \<and> (\<forall>p < length recs. map_of (item_idx_to_id m) (int (idxs ! p)) = Some (fst (recs ! p)))
         \<and> (\<forall>p q. p < q \<and> q < length recs \<longrightarrow>
               snd (recs ! q) < snd (recs ! p)
               \<or> (snd (recs ! q) = snd (recs ! p) \<and> idxs ! p < idxs ! q))
         \<and> (map_of (user_id_to_idx m) u = None \<longrightarrow> recs = [])"
proof (cases "map_of (user_id_to_idx m) u")
  case None
  then have "recommend_items m u n ex = Inr []"
    by (simp add: recommend_items_def dict_lookup_def)
  then show ?thesis using n by simp
next
  case (Some ui)
  then obtain scores where r: "recommend_items m u n ex =
      Inr (map snd (take (nat n) (sort_key (\<lambda>t. - snd (snd t))
             (indexed_recommendations (item_idx_to_id m) ex 0 scores))))"
    using recommend_items_indexed [OF fit n] by blast
  define T where "T = indexed_recommendations (item_idx_to_id m) ex 0 scores"
  define R where "R = take (nat n) (sort_key (\<lambda>t. - snd (snd t)) T)"
  have sub: "set R \<subseteq> set T"
    unfolding R_def using set_take_subset [of "nat n" "sort_key (\<lambda>t. - snd (snd t)) T"] by simp
  have props: "\<forall>t \<in> set R. map_of (item_idx_to_id m) (int (fst t)) = Some (fst (snd t))
                 \<and> \<not> excluded ex (fst (snd t))"
    using sub indexed_props [of "item_idx_to_id m" ex 0 scores] unfolding T_def by blast
  have srt: "sorted_wrt rank_before R"
    unfolding R_def T_def by (intro sorted_wrt_take sort_rank indexed_increasing)
  have 1: "recommend_items m u n ex = Inr (map snd R)"
    using r by (simp add: R_def T_def)
  have 2: "int (length (map snd R)) \<le> n"
    using n by (simp add: R_def)
  have 3: "\<forall>S. ex = Some S \<longrightarrow> fst ` set (map snd R) \<inter> S = {}"
    using props by (auto simp: excluded_def)
  have 4: "length (map fst R) = length (map snd R)" by simp
  have 5: "\<forall>p < length (map snd R).
      map_of (item_idx_to_id m) (int (map fst R ! p)) = Some (fst (map snd R ! p))"
    using props by simp
  have 6: "\<forall>p q. p < q \<and> q < length (map snd R) \<longrightarrow>
               snd (map snd R ! q) < snd (map snd R ! p)
               \<or> (snd (map snd R ! q) = snd (map snd R ! p) \<and> map fst R ! p < map fst R ! q)"
  proof (intro allI impI)
    fix p q assume pq: "p < q \<and> q < length (map snd R)"
    then have "rank_before (R ! p) (R ! q)"
      using srt by (simp add: sorted_wrt_iff_nth_less)
    then show "snd (map snd R ! q) < snd (map snd R ! p)
               \<or> (snd (map snd R ! q) = snd (map snd R ! p) \<and> map fst R ! p < map fst R ! q)"
      using pq by (auto simp: rank_before_def)
  qed
  have 7: "map_of (user_id_to_idx m) u = None \<longrightarrow> map snd R = []"
    using Some by simp
  show ?thesis
    by (rule exI [where x = "map snd R"], rule exI [where x = "map fst R"])
       (intro conjI 1 2 3 4 5 6 7)
qed


theorem recommend_items_ranked_witness:
  "\<exists>recs idxs.
      recommend_items small_cf 10 2 (Some {21}) = Inr recs
    \<and> int (length recs) \<le> 2
    \<and> (\<forall>S. Some {21} = Some S \<longrightarrow> fst ` set recs \<inter> S = {})
    \<and> length idxs = length recs
    \<and> (\<forall>p < length recs. map_of (item_idx_to_id small_cf) (int (idxs ! p)) = Some (fst (recs ! p)))
    \<and> (\<forall>p q. p < q \<and> q < length recs \<longrightarrow>
          snd (recs ! q) < snd (recs ! p)
          \<or> (snd (recs ! q) = snd (recs ! p) \<and> idxs ! p < idxs ! q))
    \<and> (map_of (user_id_to_idx small_cf) 10 = None \<longrightarrow> recs = [])"
proof -
  have n: "(0::int) \<le> 2" by simp
  show ?thesis by (rule recommend_items_ranked [OF small_cf_fitted n])
qed

section \<open>Properties of the content model\<close>

lemma np_std_nonneg: "0 \<le> np_std xs"
proof -
  have "0 \<le> sum_list (map (\<lambda>x. (x - np_mean xs)\<^sup>2) xs)"
    by (rule sum_list_nonneg) auto
  then have "0 \<le> np_mean (map (\<lambda>x. (x - np_mean xs)\<^sup>2) xs)"
    by (simp add: np_mean_def)
  then show ?thesis by (simp add: np_std_def)
qed

lemma zscore_denominator_pos: "0 < zscore_denominator M j"
  using np_std_nonneg [of "column M j"] by (simp add: zscore_denominator_def add_nonneg_pos)

lemma zscore_denominator_nonzero: "zscore_denominator M j \<noteq> 0"
  using zscore_denominator_pos [of M j] by simp

lemma collect_Inr_length:
  "(\<forall>r \<in> set rs. \<not> isl r) \<Longrightarrow> \<exists>ys. collect rs = Inr ys \<and> length ys = length rs"
  by (induction rs) (auto split: sum.splits)

lemma normalize_row_total:
  "\<not> isl (collect (map (\<lambda>j. checked_div (row ! j - np_mean (column M j))
                              (zscore_denominator M j)) [0..<length row]))"
proof -
  have "\<forall>r \<in> set (map (\<lambda>j. checked_div (row ! j - np_mean (column M j))
            (zscore_denominator M j)) [0..<length row]). \<not> isl r"
    by (simp add: checked_div_def zscore_denominator_nonzero)
  then show ?thesis
    using collect_Inr_length by fastforce
qed

lemma normalize_numerical_Inr:
  "\<exists>N. normalize_numerical M = Inr N \<and> length N = length M"
proof -
  have "\<forall>r \<in> set (map (\<lambda>row. collect (map (\<lambda>j.
      checked_div (row ! j - np_mean (column M j)) (zscore_denominator M j)) [0..<length row])) M).
      \<not> isl r"
    using normalize_row_total by simp
  then show ?thesis
    unfolding normalize_numerical_def using collect_Inr_length by fastforce
qed

text \<open>The first column of \<open>flat_table\<close> is constant: its standard deviation is zero.\<close>

lemma flat_table_constant_column: "np_std (column flat_table 0) = 0"
  by (simp add: flat_table_def column_def np_std_def np_mean_def)

text \<open>
  C10. For every item table, also one with a constant numeric column, the divisor of
  every column in the z-score step of \<open>fit\<close> is the column's standard deviation plus
  1e-8 and is strictly positive; the step never divides by zero and returns a normalized
  row for every recipe.
\<close>

theorem zscore_never_divides_by_zero:
  "(\<forall>j. zscore_denominator (numerical_features item_table) j
           = np_std (column (numerical_features item_table) j) + 1 / 10 ^ 8
        \<and> 0 < zscore_denominator (numerical_features item_table) j)
   \<and> (\<exists>N. normalize_numerical (numerical_features item_table) = Inr N
          \<and> length N = length item_table)"
proof
  show "\<forall>j. zscore_denominator (numerical_features item_table) j
           = np_std (column (numerical_features item_table) j) + 1 / 10 ^ 8
        \<and> 0 < zscore_denominator (numerical_features item_table) j"
    using zscore_denominator_pos by (simp add: zscore_denominator_def)
next
  show "\<exists>N. normalize_numerical (numerical_features item_table) = Inr N
          \<and> length N = length item_table"
    using normalize_numerical_Inr [of "numerical_features item_table"]
    by (simp add: numerical_features_def)
qed

text \<open>
  Whatever order the index sort gives to the two equal similarities of \<open>twin_cb\<close>, one of
  the two recipes is returned for its own query.
\<close>

lemma twin_cb_self_any_order:
  assumes "argsort [1, 1] = [0, 1] \<or> argsort [1, 1] = [1, 0]"
  shows "get_similar_items argsort twin_cb 1 1 = Inr [(1, 1)]
         \<or> get_similar_items argsort twin_cb 2 1 = Inr [(2, 1)]"
  using assms
  by (auto simp: get_similar_items_def twin_cb_def py_index_def in_range_def row_at_def
      cosine_similarity_def np_dot_mat_def np_dot_def normalize_row_def l2_norm_def py_take_def)

text \<open>
  C5. The list returned by \<open>get_similar_items\<close> does not contain the query item. In
  \<open>twin_cb\<close> the recipes 1 and 2 have the same feature row, so both similarities are 1;
  with the index sort that keeps ties in index order the reversed order starts with
  recipe 2, the slice drops it, and the query for recipe 1 returns recipe 1.
\<close>

theorem get_similar_items_returns_query_item:
  "get_similar_items argsort_stable twin_cb 1 1 = Inr [(1, 1)]"
  by (simp add: get_similar_items_def twin_cb_def py_index_def in_range_def row_at_def
      cosine_similarity_def np_dot_mat_def np_dot_def normalize_row_def l2_norm_def
      argsort_stable_def py_take_def)

section \<open>Properties of the hybrid recommender\<close>

lemmas recommend_eval = recommend_def recommend_items_def recommend_based_on_profile_def
  rated_items_def liked_items_def hybrid_scores_def hybrid_score_def dict_get_def
  dict_lookup_def py_index_def in_range_def row_at_def np_dot_mat_def np_dot_def
  excluded_def sort_by_score_desc_def py_take_def two_recipes_cb_def

lemma set_py_take: "set (py_take n xs) \<subseteq> set xs"
  by (auto simp: py_take_def dest: in_set_takeD)

lemma set_sort_by_score_desc: "set (sort_by_score_desc xs) = set xs"
  by (simp add: sort_by_score_desc_def)

lemma hybrid_score_cases:
  "hybrid_score h cf_recs cb_recs item =
     cf_weight h * (case map_of (rev cf_recs) item of
                      None \<Rightarrow> 0 | Some c \<Rightarrow> if 0 < c then c / 5 else 0)
     + cb_weight h * (case map_of (rev cb_recs) item of
                        None \<Rightarrow> 0 | Some b \<Rightarrow> if 0 < b then b else 0)"
  by (simp add: hybrid_score_def dict_get_def Let_def split: option.splits)

lemma default_weights_sum: "default_cf_weight + default_cb_weight = 1"
  by (simp add: default_cf_weight_def default_cb_weight_def)

lemma hot_hybrid_interactions:
  "interactions_df hot_hybrid = Some [\<lparr> i_user_id = 10, i_recipe_id = 21, i_rating = 3 \<rparr>]"
  by (simp add: hot_hybrid_def)

lemma hot_hybrid_cf_recs:
  "recommend_items (cf_model hot_hybrid) 10 (1 * 3)
     (Some (rated_items [\<lparr> i_user_id = 10, i_recipe_id = 21, i_rating = 3 \<rparr>] 10))
   = Inr [(20, 10)]"
  by (simp add: recommend_eval hot_hybrid_def)

lemma hot_hybrid_cb_recs:
  "recommend_based_on_profile (cb_model hot_hybrid)
     (liked_items [\<lparr> i_user_id = 10, i_recipe_id = 21, i_rating = 3 \<rparr>] 10) (1 * 3)
   = Inr []"
  by (simp add: recommend_eval hot_hybrid_def)

lemma remdups_keeps_set: "\<forall>xs::int list. set (remdups xs) = set xs"
  by simp

lemmas profile_eval = liked_indices_def mean_axis0_def column_def np_mean_def
  cosine_similarity_def normalize_row_def l2_norm_def

text \<open>
  C1 as stated: the score of every candidate of the union is
  \<open>w_cf * (cf / 5) + w_cb * max cb 0\<close>, with weights that sum to 1. In \<open>mixed_hybrid\<close>
  the weights are 0.6 and 0.4. The collaborative list is \<open>[(20, -5)]\<close> and the content
  list is \<open>[(21, 1), (20, 0)]\<close>, so the union holds the recipes 20 and 21. Recipe 20 gets
  the score 0 where the stated formula gives -3/5, and recipe 21, which the user has
  rated, gets no score: the dictionary of hybrid scores and the returned list hold
  recipe 20 only.
\<close>

theorem hybrid_score_counterexample:
  "cf_weight mixed_hybrid + cb_weight mixed_hybrid = 1
   \<and> interactions_df mixed_hybrid = Some mixed_interactions
   \<and> recommend_items (cf_model mixed_hybrid) 10 (2 * 3)
         (Some (rated_items mixed_interactions 10)) = Inr [(20, - 5)]
   \<and> recommend_based_on_profile (cb_model mixed_hybrid)
         (liked_items mixed_interactions 10) (2 * 3) = Inr [(21, 1), (20, 0)]
   \<and> hybrid_scores remdups mixed_hybrid (rated_items mixed_interactions 10)
         [(20, - 5)] [(21, 1), (20, 0)] = [(20, 0)]
   \<and> recommend remdups mixed_hybrid 10 2 = Inr [(20, 0)]
   \<and> spec_hybrid_score (cf_weight mixed_hybrid) (cb_weight mixed_hybrid) (Some (- 5)) (Some 0)
       = - 3 / 5"
  by (simp add: recommend_eval profile_eval mixed_hybrid_def mixed_interactions_def
      spec_hybrid_score_def default_cf_weight_def default_cb_weight_def)

text \<open>
  C1 amended. When both sub-models return their candidate lists, \<open>recommend\<close> returns a
  list in which every entry is a candidate of the union that the user has not rated, with
  the score \<open>cf_weight * cf_norm + cb_weight * cb_norm\<close>; every unrated candidate of the
  union has this score in the dictionary of hybrid scores. Here \<open>cf_norm\<close> is the
  collaborative score divided by 5 when that score is positive and 0 otherwise,
  \<open>cb_norm\<close> is the content score when it is positive and 0 otherwise, and a candidate
  absent from a sub-model's list contributes 0 for that term. The weights are the two
  configured fields; the constructor's defaults, 0.6 and 0.4, sum to 1.
\<close>

theorem hybrid_score_formula:
  fixes h :: hybrid
  defines "F \<equiv> \<lambda>cf_recs cb_recs item.
      cf_weight h * (case map_of (rev cf_recs) item of
                       None \<Rightarrow> 0 | Some c \<Rightarrow> if 0 < c then c / 5 else 0)
      + cb_weight h * (case map_of (rev cb_recs) item of
                         None \<Rightarrow> 0 | Some b \<Rightarrow> if 0 < b then b else 0)"
  assumes ord: "\<forall>xs. set (set_order xs) = set xs"
    and df: "interactions_df h = Some df"
    and cf: "recommend_items (cf_model h) uid (n * 3) (Some (rated_items df uid)) = Inr cf_recs"
    and cb: "recommend_based_on_profile (cb_model h) (liked_items df uid) (n * 3) = Inr cb_recs"
  shows "\<exists>recs. recommend set_order h uid n = Inr recs
     \<and> (\<forall>p \<in> set recs. fst p \<in> fst ` set cf_recs \<union> fst ` set cb_recs
            \<and> fst p \<notin> rated_items df uid
            \<and> snd p = F cf_recs cb_recs (fst p))
     \<and> (\<forall>item \<in> fst ` set cf_recs \<union> fst ` set cb_recs. item \<notin> rated_items df uid \<longrightarrow>
            (item, F cf_recs cb_recs item)
              \<in> set (hybrid_scores set_order h (rated_items df uid) cf_recs cb_recs))
     \<and> default_cf_weight + default_cb_weight = 1"
proof -
  define HS where "HS = hybrid_scores set_order h (rated_items df uid) cf_recs cb_recs"
  have F: "\<And>item. hybrid_score h cf_recs cb_recs item = F cf_recs cb_recs item"
    unfolding F_def by (rule hybrid_score_cases)
  have cand: "set (set_order (map fst cf_recs @ map fst cb_recs))
      = fst ` set cf_recs \<union> fst ` set cb_recs"
    using ord by simp
  have HS_set: "set HS = (\<lambda>item. (item, F cf_recs cb_recs item))
      ` ((fst ` set cf_recs \<union> fst ` set cb_recs) - rated_items df uid)"
    unfolding HS_def hybrid_scores_def using cand by (auto simp: F)
  have 1: "recommend set_order h uid n = Inr (py_take n (sort_by_score_desc HS))"
    using df cf cb by (simp add: recommend_def HS_def)
  have sub: "set (py_take n (sort_by_score_desc HS)) \<subseteq> set HS"
    using set_py_take [of n "sort_by_score_desc HS"] by (simp add: set_sort_by_score_desc)
  have 2: "\<forall>p \<in> set (py_take n (sort_by_score_desc HS)).
      fst p \<in> fst ` set cf_recs \<union> fst ` set cb_recs
      \<and> fst p \<notin> rated_items df uid
      \<and> snd p = F cf_recs cb_recs (fst p)"
    using sub HS_set by auto
  have 3: "\<forall>item \<in> fst ` set cf_recs \<union> fst ` set cb_recs. item \<notin> rated_items df uid \<longrightarrow>
      (item, F cf_recs cb_recs item) \<in> set HS"
    using HS_set by blast
  show ?thesis
    unfolding HS_def [symmetric]
    by (rule exI [where x = "py_take n (sort_by_score_desc HS)"])
       (intro conjI 1 2 3 default_weights_sum)
qed

theorem hybrid_score_formula_witness:
  "\<exists>recs. recommend remdups hot_hybrid 10 1 = Inr recs
     \<and> (\<forall>p \<in> set recs. fst p \<in> fst ` set ([(20, 10)] :: (int \<times> real) list) \<union> fst ` set ([] :: (int \<times> real) list)
            \<and> fst p \<notin> rated_items [\<lparr> i_user_id = 10, i_recipe_id = 21, i_rating = 3 \<rparr>] 10
            \<and> snd p =
                cf_weight hot_hybrid * (case map_of (rev ([(20, 10)] :: (int \<times> real) list)) (fst p) of
                       None \<Rightarrow> 0 | Some c \<Rightarrow> if 0 < c then c / 5 else 0)
                + cb_weight hot_hybrid * (case map_of (rev ([] :: (int \<times> real) list)) (fst p) of
                         None \<Rightarrow> 0 | Some b \<Rightarrow> if 0 < b then b else 0))
     \<and> (\<forall>item \<in> fst ` set ([(20, 10)] :: (int \<times> real) list) \<union> fst ` set ([] :: (int \<times> real) list).
            item \<notin> rated_items [\<lparr> i_user_id = 10, i_recipe_id = 21, i_rating = 3 \<rparr>] 10 \<longrightarrow>
            (item,
                cf_weight hot_hybrid * (case map_of (rev ([(20, 10)] :: (int \<times> real) list)) item of
                       None \<Rightarrow> 0 | Some c \<Rightarrow> if 0 < c then c / 5 else 0)
                + cb_weight hot_hybrid * (case map_of (rev ([] :: (int \<times> real) list)) item of
                         None \<Rightarrow> 0 | Some b \<Rightarrow> if 0 < b then b else 0))
              \<in> set (hybrid_scores remdups hot_hybrid
                       (rated_items [\<lparr> i_user_id = 10, i_recipe_id = 21, i_rating = 3 \<rparr>] 10)
                       ([(20, 10)] :: (int \<times> real) list) []))
     \<and> default_cf_weight + default_cb_weight = 1"
  by (rule hybrid_score_formula
        [OF remdups_keeps_set hot_hybrid_interactions hot_hybrid_cf_recs hot_hybrid_cb_recs])

text \<open>
  C2. Every score returned by \<open>recommend\<close> lies between 0 and 1. In \<open>hot_hybrid\<close>, with
  the default weights, the collaborative score of recipe 20 is 3 + 7 = 10;
  \<open>recommend_items\<close> does not clamp it, \<open>recommend\<close> divides it by 5 and returns the
  score 0.6 * 2 = 6/5, which is above 1.
\<close>

theorem recommend_score_above_one:
  "recommend remdups hot_hybrid 10 1 = Inr [(20, 6 / 5)] \<and> \<not> (6 / 5 \<le> (1::real))"
  by (simp add: recommend_eval hot_hybrid_def default_cf_weight_def default_cb_weight_def)

text \<open>
  After \<open>load_model\<close> the interaction table is \<open>None\<close>, so \<open>recommend\<close> of a reloaded
  recommender raises TypeError until the table is set again.
\<close>

lemma recommend_after_load: "recommend set_order (load_model d) uid n = Inl TypeError"
  by (simp add: recommend_def load_model_def)

text \<open>
  C8. Saving a recommender with \<open>save_model\<close> and reloading it with \<open>load_model\<close> gives
  a recommender whose collaborative model returns, for every user id, item id, count and
  exclusion set, the same \<open>predict\<close> and \<open>recommend_items\<close> results as the original.
\<close>

theorem save_load_same_predict_and_rank:
  "predict (cf_model (load_model (save_model h))) u i = predict (cf_model h) u i
   \<and> recommend_items (cf_model (load_model (save_model h))) u n ex
       = recommend_items (cf_model h) u n ex"
proof -
  have "cf_model (load_model (save_model h)) = cf_model h"
    by (simp add: load_model_def save_model_def)
  then show ?thesis by simp
qed

section \<open>Properties of create_user_item_matrix\<close>

lemma label_encode_less:
  assumes "y \<in> set cs"
  shows "label_encode cs y < length cs"
proof -
  have "dropWhile (\<lambda>c. c \<noteq> y) cs \<noteq> []"
    using assms by simp
  then have "0 < length (dropWhile (\<lambda>c. c \<noteq> y) cs)"
    by simp
  moreover have "length (takeWhile (\<lambda>c. c \<noteq> y) cs) + length (dropWhile (\<lambda>c. c \<noteq> y) cs)
      = length cs"
    using arg_cong [OF takeWhile_dropWhile_id [of "\<lambda>c. c \<noteq> y" cs], of length]
    by (simp del: takeWhile_dropWhile_id)
  ultimately show ?thesis
    unfolding label_encode_def by linarith
qed

lemma label_encode_nth:
  assumes "y \<in> set cs"
  shows "cs ! label_encode cs y = y"
proof -
  have "length (takeWhile (\<lambda>c. c \<noteq> y) cs) < length cs"
    using label_encode_less [OF assms] unfolding label_encode_def .
  then have "\<not> (cs ! length (takeWhile (\<lambda>c. c \<noteq> y) cs) \<noteq> y)"
    by (rule nth_length_takeWhile)
  then show ?thesis unfolding label_encode_def by simp
qed

lemma label_encode_inj:
  assumes "y \<in> set cs" "z \<in> set cs" "label_encode cs y = label_encode cs z"
  shows "y = z"
proof -
  have "y = cs ! label_encode cs y" using label_encode_nth [OF assms(1)] by simp
  also have "\<dots> = cs ! label_encode cs z" using assms(3) by simp
  also have "\<dots> = z" using label_encode_nth [OF assms(2)] .
  finally show ?thesis .
qed

lemma set_label_classes: "set (label_classes ys) = set ys"
  by (simp add: label_classes_def)

lemma zip3_map:
  "zip (map f xs) (zip (map g xs) (map h xs)) = map (\<lambda>x. (f x, g x, h x)) xs"
  by (induction xs) simp_all

lemma triples_as_map:
  "triples (create_user_item_matrix df) =
     map (\<lambda>x. (label_encode (label_classes (map i_user_id df)) (i_user_id x),
               label_encode (label_classes (map i_recipe_id df)) (i_recipe_id x),
               i_rating x)) df"
proof -
  have "triples (create_user_item_matrix df) =
      zip (map (\<lambda>x. label_encode (label_classes (map i_user_id df)) (i_user_id x)) df)
        (zip (map (\<lambda>x. label_encode (label_classes (map i_recipe_id df)) (i_recipe_id x)) df)
             (map i_rating df))"
    by (simp add: create_user_item_matrix_def fit_transform_def Let_def comp_def)
  then show ?thesis by (simp only: zip3_map)
qed

lemma encode_eq_iff:
  assumes "y \<in> set ys" "z \<in> set ys"
  shows "label_encode (label_classes ys) y = label_encode (label_classes ys) z \<longleftrightarrow> y = z"
proof
  assume e: "label_encode (label_classes ys) y = label_encode (label_classes ys) z"
  have "y \<in> set (label_classes ys)" "z \<in> set (label_classes ys)"
    using assms by (simp_all add: set_label_classes)
  then show "y = z" using e by (rule label_encode_inj)
next
  assume "y = z"
  then show "label_encode (label_classes ys) y = label_encode (label_classes ys) z" by simp
qed

lemma twice_rated_first: "\<lparr> i_user_id = 1, i_recipe_id = 7, i_rating = 3 \<rparr> \<in> set twice_rated"
  by (simp add: twice_rated_def)

text \<open>
  C6 as stated: where the table has several rows for one user and recipe, the matrix
  holds the rating supplied last. In \<open>twice_rated\<close> user 1 (index 0) rates recipe 7
  (index 0) with 3 and then with 4; the matrix holds 7 at that position, and the rating
  supplied last is 4.
\<close>

theorem matrix_last_write_counterexample:
  "label_encode (label_classes (map i_user_id twice_rated)) 1 = 0
   \<and> label_encode (label_classes (map i_recipe_id twice_rated)) 7 = 0
   \<and> csr_get (create_user_item_matrix twice_rated) 0 0 = 7
   \<and> last_supplied_rating twice_rated 1 7 = 4"
  by (simp add: csr_get_def create_user_item_matrix_def fit_transform_def label_classes_def
      label_encode_def twice_rated_def last_supplied_rating_def)

text \<open>
  C6 amended. For every interaction table and every row of it, the matrix built by
  \<open>create_user_item_matrix\<close> holds, at the position of the row's encoded user and
  recipe, the sum of the ratings of all rows of the table with that user and recipe.
\<close>

theorem matrix_entry_is_sum:
  "\<forall>x \<in> set df.
     csr_get (create_user_item_matrix df)
       (label_encode (label_classes (map i_user_id df)) (i_user_id x))
       (label_encode (label_classes (map i_recipe_id df)) (i_recipe_id x))
     = sum_list (map i_rating
         (filter (\<lambda>y. i_user_id y = i_user_id x \<and> i_recipe_id y = i_recipe_id x) df))"
proof
  fix x assume x: "x \<in> set df"
  define eu where "eu = label_encode (label_classes (map i_user_id df))"
  define er where "er = label_encode (label_classes (map i_recipe_id df))"
  have u: "\<And>y. y \<in> set df \<Longrightarrow> (eu (i_user_id y) = eu (i_user_id x)) = (i_user_id y = i_user_id x)"
    unfolding eu_def using x by (intro encode_eq_iff) simp_all
  have r: "\<And>y. y \<in> set df \<Longrightarrow>
      (er (i_recipe_id y) = er (i_recipe_id x)) = (i_recipe_id y = i_recipe_id x)"
    unfolding er_def using x by (intro encode_eq_iff) simp_all
  have f: "filter (\<lambda>y. eu (i_user_id y) = eu (i_user_id x)
                      \<and> er (i_recipe_id y) = er (i_recipe_id x)) df
      = filter (\<lambda>y. i_user_id y = i_user_id x \<and> i_recipe_id y = i_recipe_id x) df"
    by (rule filter_cong) (simp_all add: u r)
  have t: "triples (create_user_item_matrix df)
      = map (\<lambda>y. (eu (i_user_id y), er (i_recipe_id y), i_rating y)) df"
    unfolding eu_def er_def by (rule triples_as_map)
  have "csr_get (create_user_item_matrix df) (eu (i_user_id x)) (er (i_recipe_id x))
      = sum_list (map i_rating
          (filter (\<lambda>y. eu (i_user_id y) = eu (i_user_id x)
                      \<and> er (i_recipe_id y) = er (i_recipe_id x)) df))"
    unfolding csr_get_def t by (simp add: filter_map comp_def)
  from this f show "csr_get (create_user_item_matrix df)
       (label_encode (label_classes (map i_user_id df)) (i_user_id x))
       (label_encode (label_classes (map i_recipe_id df)) (i_recipe_id x))
     = sum_list (map i_rating
         (filter (\<lambda>y. i_user_id y = i_user_id x \<and> i_recipe_id y = i_recipe_id x) df))"
    unfolding eu_def er_def by simp
qed

theorem matrix_entry_is_sum_witness:
  "csr_get (create_user_item_matrix twice_rated)
       (label_encode (label_classes (map i_user_id twice_rated)) 1)
       (label_encode (label_classes (map i_recipe_id twice_rated)) 7)
     = sum_list (map i_rating
         (filter (\<lambda>y. i_user_id y = 1 \<and> i_recipe_id y = 7) twice_rated))
   \<and> sum_list (map i_rating
         (filter (\<lambda>y. i_user_id y = 1 \<and> i_recipe_id y = 7) twice_rated)) = 7"
proof
  show "csr_get (create_user_item_matrix twice_rated)
       (label_encode (label_classes (map i_user_id twice_rated)) 1)
       (label_encode (label_classes (map i_recipe_id twice_rated)) 7)
     = sum_list (map i_rating
         (filter (\<lambda>y. i_user_id y = 1 \<and> i_recipe_id y = 7) twice_rated))"
    using bspec [OF matrix_entry_is_sum twice_rated_first] by simp
next
  show "sum_list (map i_rating
         (filter (\<lambda>y. i_user_id y = 1 \<and> i_recipe_id y = 7) twice_rated)) = 7"
    by (simp add: twice_rated_def)
qed

section \<open>Properties of the sampling step\<close>











end
